theory Spec2Isabelle
  imports Complex_Main
begin

section \<open>Python strings and conversions used by the scripts\<close>

text \<open>
  A Python \<open>str\<close> is modelled as a list of code points below 256 (a HOL \<open>string\<close>,
  each \<open>char\<close> read as the code point of the same number).  The predicates below
  are Python's on that range.  Python floats are modelled as exact reals, Python
  integers as \<open>int\<close>.
\<close>

datatype py_error =
    JSONDecodeError | ValueError | TypeError | OverflowError | NameError
  | UnicodeDecodeError | SerialException | OtherError

text \<open>\<open>str.isspace\<close> on one character: tab to carriage return, the four
  separators 28 to 31, space, NEL (133) and the no-break space (160).\<close>

definition py_isspace :: "char \<Rightarrow> bool" where
  "py_isspace c = (let n = (of_char c :: nat) in
     (9 \<le> n \<and> n \<le> 13) \<or> (28 \<le> n \<and> n \<le> 32) \<or> n = 133 \<or> n = 160)"

text \<open>\<open>str.strip()\<close>: leading and trailing whitespace removed.\<close>

definition strip :: "string \<Rightarrow> string" where
  "strip s = rev (dropWhile py_isspace (rev (dropWhile py_isspace s)))"

text \<open>\<open>s.split(sep)\<close> for a one-character separator: never an empty list.\<close>

fun split_on :: "char \<Rightarrow> string \<Rightarrow> string list" where
  "split_on sep [] = [[]]"
| "split_on sep (c # cs) =
     (if c = sep then [] # split_on sep cs
      else (case split_on sep cs of
              [] \<Rightarrow> [[c]]
            | f # fs \<Rightarrow> (c # f) # fs))"

definition is_ascii_digit :: "char \<Rightarrow> bool" where
  "is_ascii_digit c = (let n = (of_char c :: nat) in 48 \<le> n \<and> n \<le> 57)"

text \<open>One character of \<open>str.isdigit\<close>: the ASCII digits and the superscripts
  two, three (178, 179) and one (185), which are digits but not decimal digits.\<close>

definition isdigit_char :: "char \<Rightarrow> bool" where
  "isdigit_char c = (let n = (of_char c :: nat) in
     (48 \<le> n \<and> n \<le> 57) \<or> n = 178 \<or> n = 179 \<or> n = 185)"

text \<open>\<open>str.isdigit()\<close>: false on the empty string.\<close>

definition isdigit :: "string \<Rightarrow> bool" where
  "isdigit d = (d \<noteq> [] \<and> list_all isdigit_char d)"

definition digit_val :: "char \<Rightarrow> int" where
  "digit_val c = int (of_char c) - 48"

definition int_of_digits :: "string \<Rightarrow> int" where
  "int_of_digits ds = foldl (\<lambda>acc c. 10 * acc + digit_val c) 0 ds"

text \<open>The body of a decimal literal accepted by \<open>int(str)\<close>: decimal digits, with
  single underscores allowed between two digits.\<close>

fun digits_us :: "string \<Rightarrow> bool" where
  "digits_us [] = False"
| "digits_us [c] = is_ascii_digit c"
| "digits_us (c # d # cs) =
     (is_ascii_digit c \<and> (if d = CHR ''_'' then digits_us cs else digits_us (d # cs)))"

text \<open>\<open>int(s)\<close> for a string, base 10: surrounding whitespace is stripped, one sign
  is allowed; \<open>None\<close> stands for the \<open>ValueError\<close>.  (The interpreter's optional limit
  on the number of digits is not modelled.)\<close>

definition py_int_str :: "string \<Rightarrow> int option" where
  "py_int_str s =
     (let t = strip s;
          neg = (t \<noteq> [] \<and> hd t = CHR ''-'');
          body = (if t \<noteq> [] \<and> (hd t = CHR ''-'' \<or> hd t = CHR ''+'') then tl t else t)
      in if digits_us body
         then Some ((if neg then - 1 else 1) * int_of_digits (filter (\<lambda>c. c \<noteq> CHR ''_'') body))
         else None)"

section \<open>The 2D variant: \<open>joystick_game.py\<close>\<close>

definition win_width :: int where "win_width = 800"
definition win_height :: int where "win_height = 600"
definition character_size :: int where "character_size = 50"
definition character_speed :: int where "character_speed = 5"

text \<open>What the script prints.\<close>

datatype jg_print = Print_Sample int int int | Print_Error py_error

text \<open>The module-level variables of the script.  \<open>joy\<close> holds \<open>joy_x\<close>, \<open>joy_y\<close> and
  \<open>button_state\<close>, which are unbound (\<open>None\<close>) until the first line is accepted.
  \<open>prev_x\<close> and \<open>prev_y\<close> are assigned once, before the loop.\<close>

record jg_state =
  character_x :: int
  character_y :: int
  character_color :: "nat \<times> nat \<times> nat"
  prev_x :: int
  prev_y :: int
  joy :: "(int \<times> int \<times> int) option"
  printed :: "jg_print list"

definition jg_init :: jg_state where
  "jg_init = \<lparr> character_x = win_width div 2, character_y = win_height div 2,
               character_color = (106, 13, 173),
               prev_x = win_width div 2, prev_y = win_height div 2,
               joy = None, printed = [] \<rparr>"

text \<open>What \<open>ser.readline().decode()\<close> gives: the read may raise, the bytes may not
  be UTF-8, or there is a text line.\<close>

datatype serial_read = ReadRaises | DecodeRaises | Text string

text \<open>Lines 32 to 36: strip, split at commas, the three-field all-digits test and
  the conversion.  \<open>Inr None\<close> is a line that is skipped, \<open>Inl\<close> an exception.\<close>

definition jg_parse :: "string \<Rightarrow> py_error + (int \<times> int \<times> int) option" where
  "jg_parse raw =
     (let line = strip raw in
      if line = [] then Inr None
      else let data = split_on CHR '','' line in
        if length data = 3 \<and> list_all isdigit data
        then (case map py_int_str data of
                [Some a, Some b, Some c] \<Rightarrow> Inr (Some (a, b, c))
              | _ \<Rightarrow> Inl ValueError)
        else Inr None)"

text \<open>The position update with its boundaries (lines 40 to 48, and again 58 to 67).\<close>

definition jg_move :: "int \<Rightarrow> int \<Rightarrow> jg_state \<Rightarrow> jg_state" where
  "jg_move joy_x joy_y s =
     (let new_x = character_x s + (joy_x - 512) div 100 * character_speed;
          new_y = character_y s + (joy_y - 512) div 100 * character_speed;
          new_x = max (character_size div 2) (min (win_width - character_size div 2) new_x);
          new_y = max (character_size div 2) (min (win_height - character_size div 2) new_y)
      in if (new_x, new_y) \<noteq> (prev_x s, prev_y s)
         then s\<lparr> character_x := new_x, character_y := new_y \<rparr>
         else s)"

text \<open>The \<open>try\<close> block of one loop iteration.\<close>

definition jg_try :: "jg_state \<Rightarrow> serial_read \<Rightarrow> py_error + jg_state" where
  "jg_try s r =
     (case r of
        ReadRaises \<Rightarrow> Inl SerialException
      | DecodeRaises \<Rightarrow> Inl UnicodeDecodeError
      | Text raw \<Rightarrow>
          (case jg_parse raw of
             Inl e \<Rightarrow> Inl e
           | Inr None \<Rightarrow> Inr s
           | Inr (Some (joy_x, joy_y, button_state)) \<Rightarrow>
               Inr ((jg_move joy_x joy_y
                      (s\<lparr> joy := Some (joy_x, joy_y, button_state),
                          printed := printed s @ [Print_Sample joy_x joy_y button_state] \<rparr>))
                    \<lparr> character_color :=
                        (if button_state = 0 then (0, 0, 255) else (255, 0, 0)) \<rparr>)))"

text \<open>The \<open>except\<close> block: the message, then the statements that follow it inside
  the handler, which read \<open>joy_x\<close>, \<open>joy_y\<close> and \<open>button_state\<close>.\<close>

definition jg_except :: "jg_state \<Rightarrow> py_error \<Rightarrow> py_error + jg_state" where
  "jg_except s e =
     (let s1 = s\<lparr> printed := printed s @ [Print_Error e] \<rparr> in
      case joy s1 of
        None \<Rightarrow> Inl NameError
      | Some (joy_x, joy_y, button_state) \<Rightarrow>
          Inr ((jg_move joy_x joy_y s1)
               \<lparr> character_color :=
                   (if button_state = 1 then (0, 0, 255) else (106, 13, 173)) \<rparr>))"

text \<open>One iteration of the main loop, for what the port delivers; \<open>Inl\<close> is an
  exception that leaves the loop and ends the script.  (The window events, of
  which \<open>QUIT\<close> ends the loop, are left out.)\<close>

definition jg_step :: "jg_state \<Rightarrow> serial_read \<Rightarrow> py_error + jg_state" where
  "jg_step s r = (case jg_try s r of Inl e \<Rightarrow> jg_except s e | Inr s' \<Rightarrow> Inr s')"

fun jg_run :: "jg_state \<Rightarrow> serial_read list \<Rightarrow> py_error + jg_state" where
  "jg_run s [] = Inr s"
| "jg_run s (r # rs) = (case jg_step s r of Inl e \<Rightarrow> Inl e | Inr s' \<Rightarrow> jg_run s' rs)"

definition in_window :: "jg_state \<Rightarrow> bool" where
  "in_window s =
     (character_size div 2 \<le> character_x s \<and> character_x s \<le> win_width - character_size div 2 \<and>
      character_size div 2 \<le> character_y s \<and> character_y s \<le> win_height - character_size div 2)"

text \<open>\<open>sub in s\<close> for strings: \<open>sub\<close> occurs in \<open>s\<close> as a contiguous block.\<close>

fun starts_with :: "string \<Rightarrow> string \<Rightarrow> bool" where
  "starts_with [] s = True"
| "starts_with (a # as) [] = False"
| "starts_with (a # as) (c # cs) = (a = c \<and> starts_with as cs)"

fun py_in :: "string \<Rightarrow> string \<Rightarrow> bool" where
  "py_in sub [] = (sub = [])"
| "py_in sub (c # cs) = (starts_with sub (c # cs) \<or> py_in sub cs)"

text \<open>\<open>str.lower()\<close> on one character: the ASCII capitals and the capitals of the
  range 192 to 222 (the multiplication sign 215 apart) move up by 32.\<close>

definition lower_char :: "char \<Rightarrow> char" where
  "lower_char c = (let n = (of_char c :: nat) in
     if (65 \<le> n \<and> n \<le> 90) \<or> (192 \<le> n \<and> n \<le> 222 \<and> n \<noteq> 215)
     then char_of (n + 32) else c)"

definition lower :: "string \<Rightarrow> string" where
  "lower s = map lower_char s"

section \<open>The 3D variant: \<open>character.py\<close>\<close>

subsection \<open>Configuration\<close>

definition ANALOG_MIN :: int where "ANALOG_MIN = 0"
definition ANALOG_MAX :: int where "ANALOG_MAX = 1023"
definition DEADZONE :: real where "DEADZONE = 60"
definition FORWARD_SPEED :: real where "FORWARD_SPEED = 220"
definition ROT_SPEED :: real where "ROT_SPEED = 160"
definition SENSITIVITY_ROT :: real where "SENSITIVITY_ROT = 25 / 100"
definition SENSITIVITY_MOVE :: real where "SENSITIVITY_MOVE = 6 / 10"

subsection \<open>Port discovery\<close>

text \<open>An entry of \<open>serial.tools.list_ports.comports()\<close>; the description may be
  missing.\<close>

record port_info =
  device :: string
  description :: "string option"

datatype log_msg =
    Log_UsingConfigured string | Log_PortList | Log_Port string | Log_Detected string
  | Log_FirstPort string | Log_NoPorts
  | Log_Attempt string | Log_Connected string | Log_ConnectFailed
  | Log_Arduino string | Log_ReadError py_error | Log_Closed
  | Log_KeyboardMode | Log_Receiving

definition is_bluetooth_name :: "port_info \<Rightarrow> bool" where
  "is_bluetooth_name p =
     (let name = lower (device p @ '' '' @ (case description p of None \<Rightarrow> [] | Some d \<Rightarrow> d))
      in py_in ''bluetooth'' name \<or> py_in ''hc-05'' name \<or> py_in ''hc-06'' name)"

text \<open>The loop of \<open>find_serial_port\<close> over the ports: each port is printed, the
  first Bluetooth one is returned.\<close>

fun scan_ports :: "port_info list \<Rightarrow> log_msg list \<times> string option" where
  "scan_ports [] = ([], None)"
| "scan_ports (p # ps) =
     (if is_bluetooth_name p then ([Log_Port (device p), Log_Detected (device p)], Some (device p))
      else (let (l, r) = scan_ports ps in (Log_Port (device p) # l, r)))"

text \<open>\<open>find_serial_port\<close>.  \<open>SERIAL_PORT\<close> (the environment variable \<open>BT_COM_PORT\<close>,
  read when the module is loaded) and \<open>SERIAL_AVAILABLE\<close> (whether pyserial could be
  imported) are parameters, as is the list of ports of the machine.  The result is
  what is printed and the port, \<open>None\<close> when there is none.\<close>

definition find_serial_port ::
  "string option \<Rightarrow> bool \<Rightarrow> port_info list \<Rightarrow> log_msg list \<times> string option" where
  "find_serial_port SERIAL_PORT SERIAL_AVAILABLE ports =
     (case SERIAL_PORT of
        Some (c # cs) \<Rightarrow> ([Log_UsingConfigured (c # cs)], Some (c # cs))
      | _ \<Rightarrow>
        if \<not> SERIAL_AVAILABLE then ([], None)
        else (case scan_ports ports of
                (l, Some d) \<Rightarrow> (Log_PortList # l, Some d)
              | (l, None) \<Rightarrow>
                  (case ports of
                     p # ps \<Rightarrow> (Log_PortList # l @ [Log_FirstPort (device p)], Some (device p))
                   | [] \<Rightarrow> (Log_PortList # l @ [Log_NoPorts], None))))"

subsection \<open>JSON values and \<open>int()\<close>\<close>

text \<open>The values \<open>json.loads\<close> returns.  A float is a finite number, an infinity
  or a NaN; an object is the list of its members, each key once.  \<open>json.loads\<close>
  itself is the standard library's and is a parameter of the reader below: it gives
  a value or raises.\<close>

datatype pyfloat = Finite real | PosInf | NegInf | NaN

datatype json =
    JNull | JBool bool | JInt int | JFloat pyfloat | JStr string
  | JArr "json list" | JObj "(string \<times> json) list"

type_synonym json_loads = "string \<Rightarrow> py_error + json"

text \<open>\<open>int(v)\<close>: an integer is itself, a boolean 0 or 1, a float is truncated
  towards zero, a string is read as a decimal literal; the rest raise.\<close>

definition py_int :: "json \<Rightarrow> py_error + int" where
  "py_int v =
     (case v of
        JInt n \<Rightarrow> Inr n
      | JBool b \<Rightarrow> Inr (if b then 1 else 0)
      | JFloat f \<Rightarrow>
          (case f of
             Finite r \<Rightarrow> Inr (if 0 \<le> r then \<lfloor>r\<rfloor> else \<lceil>r\<rceil>)
           | NaN \<Rightarrow> Inl ValueError
           | _ \<Rightarrow> Inl OverflowError)
      | JStr s \<Rightarrow> (case py_int_str s of None \<Rightarrow> Inl ValueError | Some n \<Rightarrow> Inr n)
      | _ \<Rightarrow> Inl TypeError)"

subsection \<open>\<open>SerialReader\<close>\<close>

datatype joy_msg = Joy int int

record reader_state =
  rd_buffer :: string
  out_q :: "joy_msg list"
  rd_log :: "log_msg list"
  rd_connected :: bool
  rd_reading :: bool


text \<open>Lines 135 to 143: one stripped, non-empty line.  A \<open>JSONDecodeError\<close> is
  caught here; any other exception leaves the function.\<close>

definition handle_line :: "json_loads \<Rightarrow> reader_state \<Rightarrow> string \<Rightarrow> py_error + reader_state" where
  "handle_line loads r line =
     (case loads line of
        Inl e \<Rightarrow>
          if e = JSONDecodeError
          then Inr (if py_in ''==='' line \<or> py_in ''Started'' line
                    then r\<lparr> rd_log := rd_log r @ [Log_Arduino line] \<rparr> else r)
          else Inl e
      | Inr obj \<Rightarrow>
          (case obj of
             JObj kv \<Rightarrow>
               (case (map_of kv ''x'', map_of kv ''y'') of
                  (Some vx, Some vy) \<Rightarrow>
                    (case py_int vx of
                       Inl e \<Rightarrow> Inl e
                     | Inr x \<Rightarrow>
                         (case py_int vy of
                            Inl e \<Rightarrow> Inl e
                          | Inr y \<Rightarrow> Inr (r\<lparr> out_q := out_q r @ [Joy x y] \<rparr>)))
                | _ \<Rightarrow> Inr r)
           | _ \<Rightarrow> Inr r))"

definition newline :: char where
  "newline = CHR 0x0A"

lemma handle_line_buffer: "handle_line loads r l = Inr r2 \<Longrightarrow> rd_buffer r2 = rd_buffer r"
  by (auto simp: handle_line_def split: sum.splits json.splits option.splits if_splits)

lemma drain_lines_measure:
  "newline \<in> set b \<Longrightarrow> length (tl (dropWhile (\<lambda>c. c \<noteq> newline) b)) < length b"
proof -
  assume a: "newline \<in> set b"
  then have "dropWhile (\<lambda>c. c \<noteq> newline) b \<noteq> []" by (auto simp: dropWhile_eq_Nil_conv)
  then have "length (tl (dropWhile (\<lambda>c. c \<noteq> newline) b)) < length (dropWhile (\<lambda>c. c \<noteq> newline) b)"
    by (cases "dropWhile (\<lambda>c. c \<noteq> newline) b") auto
  also have "\<dots> \<le> length b" by (rule length_dropWhile_le)
  finally show ?thesis .
qed

text \<open>The inner loop, lines 128 to 143: while the buffer holds a newline, the
  first line is cut off and handled.  An exception stops the loop with the buffer
  as it is then; it is returned beside the state.\<close>

function drain_lines :: "json_loads \<Rightarrow> reader_state \<Rightarrow> reader_state \<times> py_error option" where
  "drain_lines loads r =
     (if newline \<in> set (rd_buffer r)
      then (let line = takeWhile (\<lambda>c. c \<noteq> newline) (rd_buffer r);
                r1 = r\<lparr> rd_buffer := tl (dropWhile (\<lambda>c. c \<noteq> newline) (rd_buffer r)) \<rparr>;
                line = strip line
            in if line = [] then drain_lines loads r1
               else (case handle_line loads r1 line of
                       Inl e \<Rightarrow> (r1, Some e)
                     | Inr r2 \<Rightarrow> drain_lines loads r2))
      else (r, None))"
  by pat_completeness auto
termination
proof (relation "measure (\<lambda>(loads, r). length (rd_buffer r))", goal_cases)
  case 1
  show ?case by simp
next
  case (2 loads r line r1 sline)
  then show ?case using drain_lines_measure [of "rd_buffer r"] by simp
next
  case (3 loads r line r1 sline r2)
  then have "rd_buffer r2 = rd_buffer r1"
    by (auto dest: handle_line_buffer)
  with 3 show ?case using drain_lines_measure [of "rd_buffer r"] by simp
qed

text \<open>What \<open>self.ser.read(256)\<close> gives: an exception, no bytes (the read timed
  out), or some bytes, here as the text they decode to with undecodable bytes
  ignored.\<close>

datatype chunk_read = ReadFails py_error | NoData | Chunk string

text \<open>One iteration of the outer loop, lines 115 to 148: any exception is printed
  and the loop goes on.\<close>

definition reader_step :: "json_loads \<Rightarrow> reader_state \<Rightarrow> chunk_read \<Rightarrow> reader_state" where
  "reader_step loads r c =
     (case c of
        ReadFails e \<Rightarrow> r\<lparr> rd_log := rd_log r @ [Log_ReadError e] \<rparr>
      | NoData \<Rightarrow> r
      | Chunk text \<Rightarrow>
          (case drain_lines loads (r\<lparr> rd_buffer := rd_buffer r @ text \<rparr>) of
             (r', None) \<Rightarrow> r'
           | (r', Some e) \<Rightarrow> r'\<lparr> rd_log := rd_log r' @ [Log_ReadError e] \<rparr>))"

definition reader_run :: "json_loads \<Rightarrow> reader_state \<Rightarrow> chunk_read list \<Rightarrow> reader_state" where
  "reader_run loads r cs = foldl (reader_step loads) r cs"

subsection \<open>\<open>Game\<close>\<close>

record game =
  cam_pos :: "real \<times> real \<times> real"
  cam_yaw :: real
  player_pos :: "real \<times> real \<times> real"
  player_yaw :: real
  cube_angle :: real
  forward :: real
  turn :: real
  last_joy_x :: int
  last_joy_y :: int
  q :: "joy_msg list"
  serial_port :: "string option"
  serial_thread :: bool
  bt_connected :: bool
  running :: bool
  game_log :: "log_msg list"

text \<open>\<open>Game.__init__\<close>.  When there is a port and pyserial, the reader thread is
  started, and half a second later the constructor reads the thread's flag
  \<open>connected\<close>: that value is the parameter \<open>thread_connected\<close> (the thread, which runs beside the
  game, is \<open>reader_start\<close> above).  Otherwise the keyboard banner is printed.\<close>

definition game_init :: "string option \<Rightarrow> bool \<Rightarrow> port_info list \<Rightarrow> bool \<Rightarrow> game" where
  "game_init SERIAL_PORT SERIAL_AVAILABLE ports thread_connected =
     (let (l, port) = find_serial_port SERIAL_PORT SERIAL_AVAILABLE ports;
          g = \<lparr> cam_pos = (0, 0, - 6), cam_yaw = 0, player_pos = (0, 0, 0), player_yaw = 0,
                cube_angle = 0, forward = 0, turn = 0, last_joy_x = 512, last_joy_y = 512,
                q = [], serial_port = port, serial_thread = False, bt_connected = False,
                running = False, game_log = l \<rparr>
      in if port \<noteq> None \<and> port \<noteq> Some [] \<and> SERIAL_AVAILABLE
         then g\<lparr> serial_thread := True, bt_connected := thread_connected \<rparr>
         else g\<lparr> game_log := l @ [Log_KeyboardMode] \<rparr>)"

text \<open>Lines 271 to 281 for one axis: centre, deadzone, scale and clamp.\<close>

definition normalize_axis :: "int \<Rightarrow> real" where
  "normalize_axis raw =
     (let x = real_of_int raw - real_of_int (ANALOG_MAX + ANALOG_MIN) / 2;
          x = (if \<bar>x\<bar> < DEADZONE then 0 else x)
      in max (- 1) (min 1 (x / (real_of_int (ANALOG_MAX - ANALOG_MIN) / 2))))"

text \<open>The body of the loop of \<open>handle_serial_messages\<close> for one message.\<close>

fun apply_joy :: "game \<Rightarrow> joy_msg \<Rightarrow> game" where
  "apply_joy g (Joy x_raw y_raw) =
     (let g1 = g\<lparr> last_joy_x := x_raw, last_joy_y := y_raw,
                  forward := - normalize_axis y_raw * SENSITIVITY_MOVE,
                  turn := normalize_axis x_raw * SENSITIVITY_ROT \<rparr>
      in if \<not> bt_connected g1
         then g1\<lparr> bt_connected := True, game_log := game_log g1 @ [Log_Receiving] \<rparr>
         else g1)"

definition handle_serial_messages :: "game \<Rightarrow> game" where
  "handle_serial_messages g = (foldl apply_joy g (q g))\<lparr> q := [] \<rparr>"

text \<open>The pressed keys \<open>handle_input\<close> looks at, and the events it handles.\<close>

record keys =
  K_w :: bool
  K_s :: bool
  K_q :: bool
  K_e :: bool

datatype pg_event = QUIT | KEYDOWN_ESCAPE | KEYDOWN_SPACE | OTHER_EVENT

definition radians :: "real \<Rightarrow> real" where
  "radians d = d * pi / 180"

text \<open>The keyboard part of \<open>handle_input\<close>, lines 295 to 305.\<close>

definition handle_keys :: "keys \<Rightarrow> game \<Rightarrow> game" where
  "handle_keys ks g =
     (if \<not> (forward g \<noteq> 0 \<or> turn g \<noteq> 0)
      then (let k_forward = (if K_w ks then 1 else 0) - (if K_s ks then 1 else 0);
                k_turn = (if K_q ks then 1 else 0) - (if K_e ks then 1 else 0)
            in g\<lparr> forward := k_forward, turn := k_turn * (ROT_SPEED / 180) \<rparr>)
      else g)"

fun handle_event :: "game \<Rightarrow> pg_event \<Rightarrow> game" where
  "handle_event g QUIT = g\<lparr> running := False \<rparr>"
| "handle_event g KEYDOWN_ESCAPE = g\<lparr> running := False \<rparr>"
| "handle_event g KEYDOWN_SPACE =
     (let yaw_rad = radians (player_yaw g); (px, py, pz) = player_pos g
      in g\<lparr> player_pos := (px + sin yaw_rad * 2, py, pz + cos yaw_rad * 2) \<rparr>)"
| "handle_event g OTHER_EVENT = g"

definition handle_input :: "keys \<Rightarrow> pg_event list \<Rightarrow> game \<Rightarrow> game" where
  "handle_input ks evs g = foldl handle_event (handle_keys ks g) evs"

text \<open>\<open>x % 360.0\<close> for a float.\<close>

definition fmod360 :: "real \<Rightarrow> real" where
  "fmod360 x = x - 360 * real_of_int \<lfloor>x / 360\<rfloor>"

text \<open>\<open>Game.update\<close>; \<open>now\<close> is \<open>time.time()\<close>.\<close>

definition update :: "real \<Rightarrow> real \<Rightarrow> game \<Rightarrow> game" where
  "update dt now g0 =
     (let g = handle_serial_messages g0;
          g = g\<lparr> player_yaw := player_yaw g + turn g * ROT_SPEED * dt \<rparr>;
          g = (if \<bar>forward g\<bar> > 1 / 1000
               then (let yaw_rad = radians (player_yaw g);
                         dx = sin yaw_rad * forward g * FORWARD_SPEED * dt;
                         dz = cos yaw_rad * forward g * FORWARD_SPEED * dt;
                         (px, py, pz) = player_pos g
                     in g\<lparr> player_pos := (px + dx, py, pz + dz) \<rparr>)
               else g);
          cam_distance = 8;
          cam_height = 5 / 2;
          yaw_rad = radians (player_yaw g);
          (px, py, pz) = player_pos g
      in g\<lparr> cam_pos := (px - sin yaw_rad * cam_distance, py + cam_height,
                          pz - cos yaw_rad * cam_distance),
             cam_yaw := player_yaw g,
             cube_angle := fmod360 (now * 25) \<rparr>)"

text \<open>The clamp of \<open>Game.run\<close>, line 420.\<close>

definition clamp_dt :: "real \<Rightarrow> real" where
  "clamp_dt dt = max 0 (min (1 / 15) dt)"

text \<open>One iteration of the loop of \<open>Game.run\<close>.  \<open>arrived\<close> are the messages the
  reader thread has put on the queue since the last iteration, \<open>elapsed\<close> is
  \<open>now - prev\<close>.\<close>

record frame_in =
  fi_keys :: keys
  fi_events :: "pg_event list"
  fi_elapsed :: real
  fi_now :: real
  fi_arrived :: "joy_msg list"

definition frame :: "game \<Rightarrow> frame_in \<Rightarrow> game" where
  "frame g f =
     (let dt = clamp_dt (fi_elapsed f);
          g = g\<lparr> q := q g @ fi_arrived f \<rparr>;
          g = handle_input (fi_keys f) (fi_events f) g
      in update dt (fi_now f) g)"

fun run_frames :: "game \<Rightarrow> frame_in list \<Rightarrow> game" where
  "run_frames g [] = g"
| "run_frames g (f # fs) = (if running g then run_frames (frame g f) fs else g)"

definition run :: "game \<Rightarrow> frame_in list \<Rightarrow> game" where
  "run g fs = run_frames (g\<lparr> running := True \<rparr>) fs"

section \<open>The cube controller: \<open>joystick/game.py\<close>\<close>

text \<open>How a script's start ends: it runs, it calls \<open>sys.exit\<close>, or an exception
  nobody catches ends the process.\<close>

datatype 'a startup = Started 'a | SysExit int | Uncaught py_error












text \<open>Lines of the device stream used in the properties below.\<close>

definition centre_line :: string where
  \<open>centre_line = ''{"x":512,"y":512}''\<close>

definition banner_line :: string where
  "banner_line = ''=== Arduino Started ===''"

definition first_line :: string where
  \<open>first_line = ''{"x":1023,"y":512}''\<close>

definition last_line :: string where
  \<open>last_line = ''{"x":0,"y":512}''\<close>

definition text_field_line :: string where
  \<open>text_field_line = ''{"x":"abc","y":512}''\<close>

text \<open>A line whose first field is the superscript two.\<close>

definition superscript_line :: string where
  "superscript_line = [CHR 0xB2, CHR '','', CHR ''1'', CHR '','', CHR ''1'']"

declare drain_lines.simps [simp del]

section \<open>Properties of the 2D variant\<close>

subsection \<open>The window invariant\<close>

lemma jg_move_in_window: "in_window s \<Longrightarrow> in_window (jg_move jx jy s)"
  by (simp add: jg_move_def in_window_def Let_def win_width_def win_height_def character_size_def)

lemma in_window_color: "in_window (s\<lparr>character_color := c\<rparr>) = in_window s"
  by (simp add: in_window_def)

lemma in_window_joy_printed:
  "in_window (s\<lparr>joy := j\<rparr>) = in_window s"
  "in_window (s\<lparr>printed := p\<rparr>) = in_window s"
  by (simp_all add: in_window_def)

lemma jg_try_in_window: "in_window s \<Longrightarrow> jg_try s r = Inr s' \<Longrightarrow> in_window s'"
  by (auto simp: jg_try_def in_window_color in_window_joy_printed
      intro!: jg_move_in_window
      split: serial_read.splits sum.splits option.splits prod.splits)

lemma jg_except_in_window: "in_window s \<Longrightarrow> jg_except s e = Inr s' \<Longrightarrow> in_window s'"
  by (auto simp: jg_except_def Let_def in_window_color in_window_joy_printed
      intro!: jg_move_in_window
      split: option.splits prod.splits)

lemma jg_step_in_window: "in_window s \<Longrightarrow> jg_step s r = Inr s' \<Longrightarrow> in_window s'"
  by (auto simp: jg_step_def split: sum.splits dest: jg_try_in_window jg_except_in_window)

lemma jg_run_in_window: "in_window s \<Longrightarrow> jg_run s rs = Inr s' \<Longrightarrow> in_window s'"
proof (induction rs arbitrary: s)
  case Nil
  then show ?case by simp
next
  case (Cons r rs)
  then show ?case
    by (auto split: sum.splits dest: jg_step_in_window)
qed

lemma jg_init_in_window: "in_window jg_init"
  by (simp add: in_window_def jg_init_def win_width_def win_height_def character_size_def)

lemma jg_step_accepted:
  "jg_parse raw = Inr (Some smp) \<Longrightarrow> \<exists>s'. jg_step s (Text raw) = Inr s'"
  by (cases smp) (simp add: jg_step_def jg_try_def)

lemmas jg_eval =
  jg_step_def jg_try_def jg_except_def jg_parse_def jg_move_def jg_init_def
  strip_def py_isspace_def isdigit_def isdigit_char_def py_int_str_def is_ascii_digit_def
  int_of_digits_def digit_val_def win_width_def win_height_def character_size_def
  character_speed_def in_window_def Let_def

text \<open>
  C9.  In \<open>joystick_game.py\<close> the character starts inside the window (at its
  centre), and it is inside the window after every run of the main loop that has
  not been ended by an exception: \<open>character_x\<close> lies between \<open>character_size // 2\<close>
  and \<open>win_width - character_size // 2\<close>, \<open>character_y\<close> between
  \<open>character_size // 2\<close> and \<open>win_height - character_size // 2\<close>.  An iteration
  whose line is parsed into a sample raises nothing and keeps the position inside
  the window.
\<close>

theorem position_stays_in_window:
  "in_window jg_init \<and>
   (jg_run jg_init rs = Inr s \<longrightarrow> in_window s) \<and>
   (in_window s0 \<and> jg_parse raw = Inr (Some smp) \<longrightarrow>
      (\<exists>s'. jg_step s0 (Text raw) = Inr s' \<and> in_window s'))"
proof (intro conjI impI)
  show "in_window jg_init" by (rule jg_init_in_window)
next
  assume "jg_run jg_init rs = Inr s"
  with jg_init_in_window show "in_window s" by (rule jg_run_in_window)
next
  assume a: "in_window s0 \<and> jg_parse raw = Inr (Some smp)"
  then obtain s' where s': "jg_step s0 (Text raw) = Inr s'"
    using jg_step_accepted by blast
  with a have "in_window s'" by (auto dest: jg_step_in_window)
  with s' show "\<exists>s'. jg_step s0 (Text raw) = Inr s' \<and> in_window s'" by blast
qed

theorem position_stays_in_window_witness:
  "(\<exists>s. jg_run jg_init [Text ''1023,0,0'', Text ''=== Arduino Started ==='', Text ''1023,1023,1'']
         = Inr s \<and> in_window s \<and> character_x s = 450 \<and> character_y s = 295) \<and>
   (\<exists>s'. jg_step jg_init (Text ''0,1023,1'') = Inr s' \<and> in_window s')"
proof -
  let ?rs = "[Text ''1023,0,0'', Text ''=== Arduino Started ==='', Text ''1023,1023,1'']"
  let ?s = "\<lparr> character_x = 450, character_y = 295, character_color = (255, 0, 0),
              prev_x = 400, prev_y = 300, joy = Some (1023, 1023, 1),
              printed = [Print_Sample 1023 0 0, Print_Sample 1023 1023 1] \<rparr>"
  have run: "jg_run jg_init ?rs = Inr ?s"
    by (simp add: jg_eval)
  have p: "jg_parse ''0,1023,1'' = Inr (Some (0, 1023, 1))"
    by (simp add: jg_eval)
  from position_stays_in_window [of ?rs ?s jg_init "''0,1023,1''" "(0, 1023, 1)"] run p
  have "in_window ?s" and "\<exists>s'. jg_step jg_init (Text ''0,1023,1'') = Inr s' \<and> in_window s'"
    by blast+
  with run show ?thesis by simp
qed

subsection \<open>Which lines the delimited parser accepts\<close>











section \<open>Properties of the 3D variant and of the cube controller\<close>

subsection \<open>Normalisation of an axis\<close>

lemma normalize_axis_unfold:
  "normalize_axis v =
     max (- 1) (min 1 ((if \<bar>real_of_int v - 1023 / 2\<bar> < 60 then 0 else real_of_int v - 1023 / 2) / (1023 / 2)))"
  by (simp add: normalize_axis_def ANALOG_MAX_def ANALOG_MIN_def DEADZONE_def Let_def)

















subsection \<open>The game loop: control, yaw and position\<close>

lemma apply_joy_fields:
  "player_pos (apply_joy g m) = player_pos g"
  "player_yaw (apply_joy g m) = player_yaw g"
  "running (apply_joy g m) = running g"
  "bt_connected (apply_joy g m)"
  by (cases m; simp add: Let_def)+

lemma apply_joy_control:
  "forward (apply_joy g (Joy x y)) = - normalize_axis y * SENSITIVITY_MOVE"
  "turn (apply_joy g (Joy x y)) = normalize_axis x * SENSITIVITY_ROT"
  "last_joy_x (apply_joy g (Joy x y)) = x"
  "last_joy_y (apply_joy g (Joy x y)) = y"
  by (simp_all add: Let_def)

lemma foldl_apply_joy_fields:
  "player_pos (foldl apply_joy g ms) = player_pos g"
  "player_yaw (foldl apply_joy g ms) = player_yaw g"
  "running (foldl apply_joy g ms) = running g"
  by (induction ms arbitrary: g; simp add: apply_joy_fields)+

lemma hsm_fields:
  "player_pos (handle_serial_messages g) = player_pos g"
  "player_yaw (handle_serial_messages g) = player_yaw g"
  "running (handle_serial_messages g) = running g"
  "q (handle_serial_messages g) = []"
  by (simp_all add: handle_serial_messages_def foldl_apply_joy_fields)

lemma hsm_single:
  "q g = [Joy x y] \<Longrightarrow> forward (handle_serial_messages g) = - normalize_axis y * SENSITIVITY_MOVE"
  "q g = [Joy x y] \<Longrightarrow> turn (handle_serial_messages g) = normalize_axis x * SENSITIVITY_ROT"
  by (simp_all add: handle_serial_messages_def Let_def)

lemma update_control:
  "forward (update dt now g) = forward (handle_serial_messages g)"
  "turn (update dt now g) = turn (handle_serial_messages g)"
  "bt_connected (update dt now g) = bt_connected (handle_serial_messages g)"
  "game_log (update dt now g) = game_log (handle_serial_messages g)"
  "running (update dt now g) = running g"
  "q (update dt now g) = []"
  by (simp_all add: update_def Let_def hsm_fields split: prod.splits)

lemma update_yaw:
  "player_yaw (update dt now g) = player_yaw g + turn (handle_serial_messages g) * ROT_SPEED * dt"
  by (simp add: update_def Let_def hsm_fields split: prod.splits)

lemma update_pos:
  "player_pos (update dt now g) =
     (if \<bar>forward (update dt now g)\<bar> > 1 / 1000
      then (fst (player_pos g)
              + sin (radians (player_yaw (update dt now g))) * forward (update dt now g) * FORWARD_SPEED * dt,
            fst (snd (player_pos g)),
            snd (snd (player_pos g))
              + cos (radians (player_yaw (update dt now g))) * forward (update dt now g) * FORWARD_SPEED * dt)
      else player_pos g)"
  by (simp add: update_def Let_def hsm_fields split: prod.splits)

lemma clamp_dt_bounds: "0 \<le> clamp_dt e \<and> clamp_dt e \<le> 1 / 15"
  by (simp add: clamp_dt_def)

lemma scaled_sq_sum:
  "(s * f * k * d)\<^sup>2 + (c * f * k * d)\<^sup>2 = (s\<^sup>2 + c\<^sup>2) * (f * k * d)\<^sup>2" for s :: real
  by algebra

lemma update_displacement:
  assumes "0 \<le> dt"
  shows "sqrt ((fst (player_pos (update dt now g)) - fst (player_pos g))\<^sup>2
             + (snd (snd (player_pos (update dt now g))) - snd (snd (player_pos g)))\<^sup>2)
         = (if \<bar>forward (update dt now g)\<bar> > 1 / 1000
            then \<bar>forward (update dt now g)\<bar> * FORWARD_SPEED * dt else 0)"
proof (cases "\<bar>forward (update dt now g)\<bar> > 1 / 1000")
  case True
  let ?f = "forward (update dt now g)" and ?a = "radians (player_yaw (update dt now g))"
  have "(sin ?a * ?f * FORWARD_SPEED * dt)\<^sup>2 + (cos ?a * ?f * FORWARD_SPEED * dt)\<^sup>2
        = ((sin ?a)\<^sup>2 + (cos ?a)\<^sup>2) * (?f * FORWARD_SPEED * dt)\<^sup>2"
    by (rule scaled_sq_sum)
  also have "\<dots> = (?f * FORWARD_SPEED * dt)\<^sup>2" by simp
  finally have "sqrt ((sin ?a * ?f * FORWARD_SPEED * dt)\<^sup>2 + (cos ?a * ?f * FORWARD_SPEED * dt)\<^sup>2)
        = \<bar>?f * FORWARD_SPEED * dt\<bar>" by simp
  also have "\<dots> = \<bar>?f\<bar> * FORWARD_SPEED * dt"
    using assms by (simp add: abs_mult FORWARD_SPEED_def)
  finally show ?thesis using True by (simp add: update_pos)
next
  case False
  then show ?thesis by (simp add: update_pos)
qed

lemma update_height: "fst (snd (player_pos (update dt now g))) = fst (snd (player_pos g))"
  by (simp add: update_pos)

lemma update_displacement_bound:
  "sqrt ((fst (player_pos (update (clamp_dt e) now g)) - fst (player_pos g))\<^sup>2
       + (snd (snd (player_pos (update (clamp_dt e) now g))) - snd (snd (player_pos g)))\<^sup>2)
   \<le> \<bar>forward (update (clamp_dt e) now g)\<bar> * FORWARD_SPEED * (1 / 15)"
proof -
  have d: "0 \<le> clamp_dt e" "clamp_dt e \<le> 1 / 15" using clamp_dt_bounds by auto
  have "\<bar>forward (update (clamp_dt e) now g)\<bar> * FORWARD_SPEED * clamp_dt e
        \<le> \<bar>forward (update (clamp_dt e) now g)\<bar> * FORWARD_SPEED * (1 / 15)"
    using d(2) by (intro mult_left_mono) (simp_all add: FORWARD_SPEED_def)
  moreover have "0 \<le> \<bar>forward (update (clamp_dt e) now g)\<bar> * FORWARD_SPEED * (1 / 15)"
    by (simp add: FORWARD_SPEED_def)
  ultimately show ?thesis
    unfolding update_displacement [OF d(1)] by (simp split: if_splits)
qed













lemma frame_unfold:
  "frame g f = update (clamp_dt (fi_elapsed f)) (fi_now f)
                 (handle_input (fi_keys f) (fi_events f) (g\<lparr> q := q g @ fi_arrived f \<rparr>))"
  by (simp add: frame_def Let_def)










lemma normalize_axis_values:
  "normalize_axis 1023 = 1" "normalize_axis 0 = - 1" "normalize_axis 512 = 0"
  by (simp_all add: normalize_axis_unfold)

text \<open>
  C1 (as amended).  In the 3D variant (deadzone 60, range 0 to 1023), processing the
  raw sample (1023, 512) yields \<open>turn = +SENSITIVITY_ROT = 0.25\<close>, the full
  deflection scaled by the rotation sensitivity, so that one \<open>update\<close> with
  \<open>dt = 0.1\<close> increases the yaw by exactly \<open>0.25 * ROT_SPEED * 0.1 = 4\<close> degrees;
  processing the subsequent sample (0, 512) yields \<open>turn = -0.25\<close>, and the next
  \<open>update\<close> decreases the yaw by the same amount.
\<close>

theorem full_deflection_turn:
  "turn (update (1 / 10) now (g\<lparr> q := [Joy 1023 512] \<rparr>)) = SENSITIVITY_ROT \<and>
   player_yaw (update (1 / 10) now (g\<lparr> q := [Joy 1023 512] \<rparr>))
     = player_yaw g + SENSITIVITY_ROT * ROT_SPEED * (1 / 10) \<and>
   SENSITIVITY_ROT * ROT_SPEED * (1 / 10) = 4 \<and>
   turn (update (1 / 10) now' ((update (1 / 10) now (g\<lparr> q := [Joy 1023 512] \<rparr>))\<lparr> q := [Joy 0 512] \<rparr>))
     = - SENSITIVITY_ROT \<and>
   player_yaw (update (1 / 10) now' ((update (1 / 10) now (g\<lparr> q := [Joy 1023 512] \<rparr>))\<lparr> q := [Joy 0 512] \<rparr>))
     = player_yaw (update (1 / 10) now (g\<lparr> q := [Joy 1023 512] \<rparr>))
       - SENSITIVITY_ROT * ROT_SPEED * (1 / 10)"
  by (simp add: update_control update_yaw hsm_single normalize_axis_values
      SENSITIVITY_ROT_def ROT_SPEED_def)

theorem full_deflection_turn_witness:
  "turn (update (1 / 10) 0 ((game_init None False [] False)\<lparr> q := [Joy 1023 512] \<rparr>)) = 1 / 4 \<and>
   player_yaw (update (1 / 10) 0 ((game_init None False [] False)\<lparr> q := [Joy 1023 512] \<rparr>)) = 4"
  using full_deflection_turn [of 0 "game_init None False [] False" 0]
  by (simp add: SENSITIVITY_ROT_def ROT_SPEED_def game_init_def find_serial_port_def)

theorem full_deflection_turn_is_not_one:
  "turn (handle_serial_messages ((game_init None False [] False)\<lparr> q := [Joy 1023 512] \<rparr>)) \<noteq> 1 \<and>
   player_yaw (update (1 / 10) 0 ((game_init None False [] False)\<lparr> q := [Joy 1023 512] \<rparr>))
     \<noteq> player_yaw (game_init None False [] False) + ROT_SPEED * (1 / 10)"
  by (simp add: update_yaw hsm_single normalize_axis_values
      SENSITIVITY_ROT_def ROT_SPEED_def game_init_def find_serial_port_def)

text \<open>
  C5.  The frame loop passes \<open>update\<close> the elapsed time clamped to \<open>[0, 1/15]\<close>
  (an elapsed time of 5 seconds becomes 1/15), and an \<open>update\<close> with the clamped
  time moves the player, in the horizontal plane, by at most
  \<open>|forward| * FORWARD_SPEED * (1/15)\<close>, where \<open>forward\<close> is the control in force
  during that update; the height does not change.
\<close>

theorem clamped_dt_bounds_displacement:
  "frame g f = update (clamp_dt (fi_elapsed f)) (fi_now f)
                 (handle_input (fi_keys f) (fi_events f) (g\<lparr> q := q g @ fi_arrived f \<rparr>)) \<and>
   clamp_dt 5 = 1 / 15 \<and> 0 \<le> clamp_dt e \<and> clamp_dt e \<le> 1 / 15 \<and>
   sqrt ((fst (player_pos (update (clamp_dt e) now g)) - fst (player_pos g))\<^sup>2
       + (snd (snd (player_pos (update (clamp_dt e) now g))) - snd (snd (player_pos g)))\<^sup>2)
     \<le> \<bar>forward (update (clamp_dt e) now g)\<bar> * FORWARD_SPEED * (1 / 15) \<and>
   fst (snd (player_pos (update (clamp_dt e) now g))) = fst (snd (player_pos g))"
proof -
  have "clamp_dt 5 = 1 / 15" by (simp add: clamp_dt_def)
  then show ?thesis
    using frame_unfold [of g f] clamp_dt_bounds [of e] update_displacement_bound [of e now g]
      update_height [of "clamp_dt e" now g]
    by blast
qed

theorem clamped_dt_bounds_displacement_witness:
  "player_pos (update (clamp_dt 5) 0 ((game_init None False [] False)\<lparr> q := [Joy 512 0] \<rparr>))
     = (0, 0, 44 / 5) \<and>
   forward (update (clamp_dt 5) 0 ((game_init None False [] False)\<lparr> q := [Joy 512 0] \<rparr>)) = 3 / 5 \<and>
   sqrt ((fst (player_pos (update (clamp_dt 5) 0 ((game_init None False [] False)\<lparr> q := [Joy 512 0] \<rparr>)))
            - 0)\<^sup>2
       + (snd (snd (player_pos (update (clamp_dt 5) 0 ((game_init None False [] False)\<lparr> q := [Joy 512 0] \<rparr>))))
            - 0)\<^sup>2)
     \<le> 3 / 5 * 220 * (1 / 15)"
proof -
  let ?g = "(game_init None False [] False)\<lparr> q := [Joy 512 0] \<rparr>"
  have g: "player_pos ?g = (0, 0, 0)" "player_yaw ?g = 0"
    by (simp_all add: game_init_def find_serial_port_def)
  have f: "forward (update dt 0 ?g) = 3 / 5" "turn (update dt 0 ?g) = 0" for dt
    by (simp_all add: update_control hsm_single normalize_axis_values
        SENSITIVITY_MOVE_def SENSITIVITY_ROT_def)
  have y: "player_yaw (update dt 0 ?g) = 0" for dt
    using f(2) [of dt] g(2) by (simp add: update_yaw update_control)
  have p: "player_pos (update (clamp_dt 5) 0 ?g) = (0, 0, 44 / 5)"
    by (subst update_pos) (simp add: f y g radians_def FORWARD_SPEED_def clamp_dt_def)
  from clamped_dt_bounds_displacement [of ?g undefined 5 0] f g p
  show ?thesis by (simp add: FORWARD_SPEED_def)
qed







subsection \<open>The reader thread: lines, samples and exceptions\<close>

lemma drain_lines_done: "newline \<notin> set (rd_buffer r) \<Longrightarrow> drain_lines loads r = (r, None)"
  by (subst drain_lines.simps) simp

lemma drain_lines_line:
  assumes "newline \<notin> set l"
  shows "drain_lines loads (r\<lparr> rd_buffer := l @ newline # rest \<rparr>) =
           (if strip l = [] then drain_lines loads (r\<lparr> rd_buffer := rest \<rparr>)
            else (case handle_line loads (r\<lparr> rd_buffer := rest \<rparr>) (strip l) of
                    Inl e \<Rightarrow> (r\<lparr> rd_buffer := rest \<rparr>, Some e)
                  | Inr r2 \<Rightarrow> drain_lines loads r2))"
proof -
  have t: "takeWhile (\<lambda>c. c \<noteq> newline) (l @ newline # rest) = l"
    using assms by (auto simp: takeWhile_tail takeWhile_eq_all_conv)
  have d: "dropWhile (\<lambda>c. c \<noteq> newline) (l @ newline # rest) = newline # rest"
    using assms by (auto simp: dropWhile_append3 dropWhile_eq_Nil_conv)
  show ?thesis
    by (subst drain_lines.simps) (simp add: t d Let_def)
qed

lemma drain_lines_at:
  assumes "rd_buffer r = l @ newline # rest" "newline \<notin> set l"
  shows "drain_lines loads r =
           (if strip l = [] then drain_lines loads (r\<lparr> rd_buffer := rest \<rparr>)
            else (case handle_line loads (r\<lparr> rd_buffer := rest \<rparr>) (strip l) of
                    Inl e \<Rightarrow> (r\<lparr> rd_buffer := rest \<rparr>, Some e)
                  | Inr r2 \<Rightarrow> drain_lines loads r2))"
proof -
  have "r = r\<lparr> rd_buffer := l @ newline # rest \<rparr>" using assms(1) by simp
  then have "drain_lines loads r = drain_lines loads (r\<lparr> rd_buffer := l @ newline # rest \<rparr>)"
    by simp
  then show ?thesis
    using drain_lines_line [OF assms(2), where loads = loads and r = r and rest = rest] by simp
qed

text \<open>A line on which \<open>json.loads\<close> raises \<open>JSONDecodeError\<close> adds no sample and
  does not stop the loop.\<close>

lemma handle_line_decode_error:
  "loads line = Inl JSONDecodeError \<Longrightarrow>
     \<exists>r'. handle_line loads r line = Inr r' \<and> out_q r' = out_q r \<and> rd_buffer r' = rd_buffer r"
  by (simp add: handle_line_def)

lemma drain_lines_skips_decode_error:
  assumes "newline \<notin> set l" "loads (strip l) = Inl JSONDecodeError"
  shows "\<exists>r'. out_q r' = out_q r \<and> rd_buffer r' = rest \<and>
      drain_lines loads (r\<lparr> rd_buffer := l @ newline # rest \<rparr>) = drain_lines loads r'"
proof (cases "strip l = []")
  case True
  then show ?thesis
    using drain_lines_line [OF assms(1), where loads = loads and r = r and rest = rest]
    by (intro exI [of _ "r\<lparr> rd_buffer := rest \<rparr>"]) simp
next
  case False
  from handle_line_decode_error
    [where loads = loads and line = "strip l" and r = "r\<lparr> rd_buffer := rest \<rparr>"] assms(2)
  obtain r' where "handle_line loads (r\<lparr> rd_buffer := rest \<rparr>) (strip l) = Inr r'"
    "out_q r' = out_q r" "rd_buffer r' = rest" by auto
  then show ?thesis
    using drain_lines_line [OF assms(1), where loads = loads and r = r and rest = rest] False
    by (intro exI [of _ r']) simp
qed

lemma line_facts:
  "newline \<notin> set centre_line" "strip centre_line = centre_line" "centre_line \<noteq> []"
  "newline \<notin> set banner_line" "strip banner_line = banner_line" "banner_line \<noteq> []"
  "newline \<notin> set first_line" "strip first_line = first_line" "first_line \<noteq> []"
  "newline \<notin> set last_line" "strip last_line = last_line" "last_line \<noteq> []"
  "newline \<notin> set text_field_line" "strip text_field_line = text_field_line" "text_field_line \<noteq> []"
  by (simp_all add: centre_line_def banner_line_def first_line_def last_line_def
      text_field_line_def newline_def strip_def py_isspace_def)

lemma py_int_JInt: "py_int (JInt n) = Inr n"
  by (simp add: py_int_def)




text \<open>The banner between two samples, in one chunk: it is printed, it adds no
  sample, and the samples before and after it reach the queue in order.\<close>

lemma banner_between_samples:
  assumes "loads first_line = Inr (JObj [(''x'', JInt 1023), (''y'', JInt 512)])"
    and "loads banner_line = Inl JSONDecodeError"
    and "loads last_line = Inr (JObj [(''x'', JInt 0), (''y'', JInt 512)])"
  shows "reader_step loads (r\<lparr> rd_buffer := [] \<rparr>)
           (Chunk (first_line @ newline # banner_line @ newline # last_line @ [newline]))
         = r\<lparr> rd_buffer := [], out_q := out_q r @ [Joy 1023 512, Joy 0 512],
              rd_log := rd_log r @ [Log_Arduino banner_line] \<rparr>"
proof -
  have b: "py_in ''==='' banner_line" by (simp add: banner_line_def)
  have hb: "handle_line loads r' banner_line = Inr (r'\<lparr> rd_log := rd_log r' @ [Log_Arduino banner_line] \<rparr>)"
    for r'
    using assms(2) b by (simp add: handle_line_def)
  have h1: "handle_line loads r' first_line = Inr (r'\<lparr> out_q := out_q r' @ [Joy 1023 512] \<rparr>)" for r'
    using assms(1) by (simp add: handle_line_def py_int_JInt)
  have h3: "handle_line loads r' last_line = Inr (r'\<lparr> out_q := out_q r' @ [Joy 0 512] \<rparr>)" for r'
    using assms(3) by (simp add: handle_line_def py_int_JInt)
  have "drain_lines loads (r\<lparr> rd_buffer := first_line @ newline # banner_line @ newline # last_line @ newline # [] \<rparr>)
        = (r\<lparr> rd_buffer := [], out_q := out_q r @ [Joy 1023 512, Joy 0 512],
              rd_log := rd_log r @ [Log_Arduino banner_line] \<rparr>, None)"
    by (simp add: line_facts h1 h3 hb drain_lines_done
        drain_lines_at [where l = first_line and rest = "banner_line @ newline # last_line @ [newline]"]
        drain_lines_at [where l = banner_line and rest = "last_line @ [newline]"]
        drain_lines_at [where l = last_line and rest = "[]"])
  then show ?thesis by (simp add: reader_step_def)
qed

text \<open>A line that is JSON but whose field \<open>int()\<close> rejects: the exception is caught
  by the outer handler and printed, no sample is added for the line, and the lines
  after it stay in the buffer until the next chunk arrives.\<close>

lemma text_field_defers_rest:
  assumes "loads text_field_line = Inr (JObj [(''x'', JStr ''abc''), (''y'', JInt 512)])"
    and "loads last_line = Inr (JObj [(''x'', JInt 0), (''y'', JInt 512)])"
    and "loads centre_line = Inr (JObj [(''x'', JInt 512), (''y'', JInt 512)])"
  shows "reader_step loads (r\<lparr> rd_buffer := [] \<rparr>)
           (Chunk (text_field_line @ newline # last_line @ [newline]))
         = r\<lparr> rd_buffer := last_line @ [newline],
              rd_log := rd_log r @ [Log_ReadError ValueError] \<rparr>"
    and "reader_step loads
           (reader_step loads (r\<lparr> rd_buffer := [] \<rparr>)
              (Chunk (text_field_line @ newline # last_line @ [newline])))
           (Chunk (centre_line @ [newline]))
         = r\<lparr> rd_buffer := [], out_q := out_q r @ [Joy 0 512, Joy 512 512],
              rd_log := rd_log r @ [Log_ReadError ValueError] \<rparr>"
proof -
  have i: "py_int (JStr ''abc'') = Inl ValueError"
    by (simp add: py_int_def py_int_str_def strip_def py_isspace_def is_ascii_digit_def)
  have ht: "handle_line loads r' text_field_line = Inl ValueError" for r'
    using assms(1) i by (simp add: handle_line_def)
  have "drain_lines loads (r\<lparr> rd_buffer := text_field_line @ newline # last_line @ [newline] \<rparr>)
        = (r\<lparr> rd_buffer := last_line @ [newline] \<rparr>, Some ValueError)"
    by (simp add: line_facts ht
        drain_lines_at [where l = text_field_line and rest = "last_line @ [newline]"])
  then show 1: "reader_step loads (r\<lparr> rd_buffer := [] \<rparr>)
           (Chunk (text_field_line @ newline # last_line @ [newline]))
         = r\<lparr> rd_buffer := last_line @ [newline],
              rd_log := rd_log r @ [Log_ReadError ValueError] \<rparr>"
    by (simp add: reader_step_def)
  let ?r = "r\<lparr> rd_log := rd_log r @ [Log_ReadError ValueError] \<rparr>"
  have h2: "handle_line loads r' last_line = Inr (r'\<lparr> out_q := out_q r' @ [Joy 0 512] \<rparr>)" for r'
    using assms(2) by (simp add: handle_line_def py_int_JInt)
  have h3: "handle_line loads r' centre_line = Inr (r'\<lparr> out_q := out_q r' @ [Joy 512 512] \<rparr>)" for r'
    using assms(3) by (simp add: handle_line_def py_int_JInt)
  have "drain_lines loads (?r\<lparr> rd_buffer := last_line @ newline # centre_line @ newline # [] \<rparr>)
        = (?r\<lparr> rd_buffer := [], out_q := out_q ?r @ [Joy 0 512, Joy 512 512] \<rparr>, None)"
    by (simp add: line_facts h2 h3 drain_lines_done
        drain_lines_at [where l = last_line and rest = "centre_line @ [newline]"]
        drain_lines_at [where l = centre_line and rest = "[]"])
  then show "reader_step loads
           (reader_step loads (r\<lparr> rd_buffer := [] \<rparr>)
              (Chunk (text_field_line @ newline # last_line @ [newline])))
           (Chunk (centre_line @ [newline]))
         = r\<lparr> rd_buffer := [], out_q := out_q r @ [Joy 0 512, Joy 512 512],
              rd_log := rd_log r @ [Log_ReadError ValueError] \<rparr>"
    unfolding 1 by (simp add: reader_step_def)
qed

text \<open>
  C4.  In \<open>joystick_game.py\<close> a line that cannot be decoded, or a line whose field
  passes \<open>isdigit()\<close> and is rejected by \<open>int()\<close>, raises inside the \<open>try\<close> block;
  the handler prints the error and then runs statements that read \<open>joy_x\<close>.  When
  no line has been accepted yet the handler raises \<open>NameError\<close> and the loop ends;
  after an accepted line the handler moves the character once more with the
  previous sample.
\<close>

theorem malformed_line_ends_the_2d_loop:
  "jg_step jg_init DecodeRaises = Inl NameError \<and>
   jg_parse superscript_line = Inl ValueError \<and>
   jg_step jg_init (Text superscript_line) = Inl NameError \<and>
   jg_run jg_init [Text ''1023,512,0'']
     = Inr \<lparr> character_x = 425, character_y = 300, character_color = (0, 0, 255),
             prev_x = 400, prev_y = 300, joy = Some (1023, 512, 0),
             printed = [Print_Sample 1023 512 0] \<rparr> \<and>
   jg_run jg_init [Text ''1023,512,0'', DecodeRaises]
     = Inr \<lparr> character_x = 450, character_y = 300, character_color = (106, 13, 173),
             prev_x = 400, prev_y = 300, joy = Some (1023, 512, 0),
             printed = [Print_Sample 1023 512 0, Print_Error UnicodeDecodeError] \<rparr>"
  by (simp add: jg_eval superscript_line_def)

subsection \<open>Start-up without a device\<close>











end
